theory Spec2Isabelle
  imports Main "HOL-Library.Char_ord" "HOL-Library.List_Lexorder"
begin

section \<open>ACME order reconciliation (pkg/controller/acmeorders/sync.go)\<close>

text \<open>
  A shallow embedding of \<^verbatim>\<open>sync.go\<close>. Go structs are records, pointers that the code
  tests against \<^verbatim>\<open>nil\<close> are options, an \<^verbatim>\<open>error\<close> result is a sum (or an option when
  nothing else is returned), and every call that leaves the controller (the ACME client,
  the issuer helper, the Challenge lister, the cert-manager client) is a function of an
  abstract world \<open>'w\<close> that answers and moves to the next world. The calls are logged,
  in order, in a trace carried beside the world.
\<close>

subsection \<open>Data model\<close>

text \<open>\<^verbatim>\<open>cmapi.State\<close> is a Go string type: \<^verbatim>\<open>setOrderStatus\<close> converts the server's status
  string into it without validation.\<close>

type_synonym State = string

text \<open>\<^verbatim>\<open>metav1.Time\<close>, read from the clock of the world.\<close>

type_synonym time = nat

text \<open>The payloads of the solver and issuer configuration blocks are declared outside
  \<^verbatim>\<open>sync.go\<close>, which only tests the pointers to them against \<^verbatim>\<open>nil\<close> and copies them.\<close>

type_synonym HTTP01SolverConfig = string
type_synonym DNS01SolverConfig = string
type_synonym ACMEIssuerHTTP01Config = string
type_synonym ACMEIssuerDNS01Config = string

record ObjectReference =
  ref_Name :: string
  ref_Kind :: string

record SolverConfig =
  HTTP01 :: "HTTP01SolverConfig option"
  DNS01 :: "DNS01SolverConfig option"

record DomainSolverConfig =
  Domains :: "string list"
  Solver :: SolverConfig

record ChallengeSpec =
  spec_AuthzURL :: string
  spec_Type :: string
  spec_URL :: string
  spec_DNSName :: string
  spec_Token :: string
  spec_Key :: string
  spec_Config :: SolverConfig
  spec_Wildcard :: bool
  spec_IssuerRef :: ObjectReference

text \<open>\<^verbatim>\<open>Challenges\<close> is a slice and \<^verbatim>\<open>FailureTime\<close> a pointer: \<open>None\<close> is \<^verbatim>\<open>nil\<close>.
  \<^verbatim>\<open>reflect.DeepEqual\<close> tells a \<^verbatim>\<open>nil\<close> slice from an empty one, and so does equality here.\<close>

record OrderStatus =
  URL :: string
  FinalizeURL :: string
  CertificateURL :: string
  State :: State
  Challenges :: "ChallengeSpec list option"
  FailureTime :: "time option"

record OrderSpec =
  CSR :: string
  IssuerRef :: ObjectReference
  CommonName :: string
  DNSNames :: "string list"
  Config :: "DomainSolverConfig list"

record Order =
  Name :: string
  Namespace :: string
  Spec :: OrderSpec
  Status :: OrderStatus

text \<open>The ACME library's order, authorization and challenge (\<^verbatim>\<open>acmeapi\<close>).\<close>

record acme_Order =
  order_URL :: string
  order_Status :: string
  order_FinalizeURL :: string
  order_CertificateURL :: string
  order_Authorizations :: "string list"

record acme_Challenge =
  ch_Type :: string
  ch_URL :: string
  ch_Token :: string

record acme_Authorization =
  authz_URL :: string
  authz_Identifier_Value :: string
  authz_Wildcard :: bool
  authz_Challenges :: "acme_Challenge list"

record ACMEIssuer =
  issuer_HTTP01 :: "ACMEIssuerHTTP01Config option"
  issuer_DNS01 :: "ACMEIssuerDNS01Config option"

text \<open>\<^verbatim>\<open>cmapi.GenericIssuer\<close>, through the two getters the code calls:
  \<^verbatim>\<open>GetObjectMeta().Name\<close> and \<^verbatim>\<open>GetSpec().ACME\<close>.\<close>

record GenericIssuer =
  issuer_Name :: string
  issuer_ACME :: "ACMEIssuer option"

record OwnerReference =
  owner_Kind :: string
  owner_Name :: string
  owner_Controller :: bool

text \<open>The Challenge resource: its object metadata, its spec, and the state of its status.\<close>

record Challenge =
  chal_Name :: string
  chal_Labels :: "(string \<times> string) list"
  chal_OwnerReferences :: "OwnerReference list"
  chal_Spec :: ChallengeSpec
  chal_State :: State

subsection \<open>Errors\<close>

text \<open>An error that a collaborator returned is opaque to the controller.\<close>

type_synonym ext_error = string

text \<open>One constructor for each \<^verbatim>\<open>fmt.Errorf\<close> of the file, carrying what the message
  is formatted from; \<open>External\<close> is a collaborator's error returned as it is, and
  \<open>Aggregate\<close> is what \<^verbatim>\<open>utilerrors.NewAggregate\<close> builds.\<close>

datatype error =
    External ext_error
  | ErrReadingIssuer string ext_error
  | ErrUpdatedUnknownState
  | ErrSyncingOrderStatus error
  | ErrFinalizingOrder ext_error
  | ErrUnknownOrderState State
  | ErrEnsuringChallenges error
  | ErrRefusingToRecreate string
  | ErrCreatingNewOrder ext_error
  | ErrConstructingChallenge error
  | ErrNotACMEIssuer string
  | ErrNoAcceptableChallenge string
  | ErrUnsupportedChallengeType string
  | ErrSolverConfigNotFound string
  | ErrOrderURLBlank
  | Aggregate "error list"

text \<open>\<^verbatim>\<open>utilerrors.NewAggregate\<close> of k8s.io/apimachinery: \<^verbatim>\<open>nil\<close> for an empty list, the
  \<^verbatim>\<open>nil\<close> entries dropped, \<^verbatim>\<open>nil\<close> when nothing is left.\<close>

definition NewAggregate :: "error option list \<Rightarrow> error option" where
  "NewAggregate errlist =
     (if errlist = [] then None
      else (let errs = List.map_filter id errlist
            in if errs = [] then None else Some (Aggregate errs)))"

subsection \<open>What the package takes from outside\<close>

text \<open>The state constants of \<^verbatim>\<open>cmapi\<close> and the two classification predicates of
  \<^verbatim>\<open>pkg/acme\<close> are declared outside the source at hand: they are parameters. So is the
  order in which Go ranges over a map, which the language leaves open, and
  \<^verbatim>\<open>labels.NewRequirement\<close>, which validates a label key and value.\<close>

record api =
  Unknown :: State
  Ready :: State
  Pending :: State
  Processing :: State
  Failed :: State
  Expired :: State
  IsFinalState :: "State \<Rightarrow> bool"
  IsFailureState :: "State \<Rightarrow> bool"
  NewRequirement :: "string \<Rightarrow> string \<Rightarrow> ext_error + (string \<times> string)"
  map_range :: "(nat \<times> ChallengeSpec) list \<Rightarrow> (nat \<times> ChallengeSpec) list"

type_synonym client = string
type_synonym selector = "(string \<times> string) list"

text \<open>The collaborators. Each call reads the world and returns the next one.\<close>

record 'w env =
  Now :: "'w \<Rightarrow> time \<times> 'w"
  GetGenericIssuer :: "ObjectReference \<Rightarrow> string \<Rightarrow> 'w \<Rightarrow> (ext_error + GenericIssuer) \<times> 'w"
  ClientForIssuer :: "GenericIssuer \<Rightarrow> 'w \<Rightarrow> (ext_error + client) \<times> 'w"
  CreateOrder :: "client \<Rightarrow> string list \<Rightarrow> 'w \<Rightarrow> (ext_error + acme_Order) \<times> 'w"
  GetOrder :: "client \<Rightarrow> string \<Rightarrow> 'w \<Rightarrow> (ext_error + acme_Order) \<times> 'w"
  GetAuthorization :: "client \<Rightarrow> string \<Rightarrow> 'w \<Rightarrow> (ext_error + acme_Authorization) \<times> 'w"
  FinalizeOrder :: "client \<Rightarrow> string \<Rightarrow> string \<Rightarrow> 'w \<Rightarrow> ext_error option \<times> 'w"
  HTTP01ChallengeResponse :: "client \<Rightarrow> string \<Rightarrow> 'w \<Rightarrow> (ext_error + string) \<times> 'w"
  DNS01ChallengeRecord :: "client \<Rightarrow> string \<Rightarrow> 'w \<Rightarrow> (ext_error + string) \<times> 'w"
  ListChallenges :: "string \<Rightarrow> selector \<Rightarrow> 'w \<Rightarrow> (ext_error + Challenge list) \<times> 'w"
  CreateChallenge :: "string \<Rightarrow> Challenge \<Rightarrow> 'w \<Rightarrow> (ext_error + Challenge) \<times> 'w"
  UpdateOrder :: "string \<Rightarrow> Order \<Rightarrow> 'w \<Rightarrow> ext_error option \<times> 'w"

text \<open>The calls that leave the controller, as the trace records them.\<close>

datatype call =
    CallGetGenericIssuer ObjectReference string
  | CallClientForIssuer GenericIssuer
  | CallCreateOrder client "string list"
  | CallGetOrder client string
  | CallGetAuthorization client string
  | CallFinalizeOrder client string string
  | CallHTTP01ChallengeResponse client string
  | CallDNS01ChallengeRecord client string
  | CallListChallenges string selector
  | CallCreateChallenge string Challenge
  | CallUpdateOrder string Order

text \<open>The world and the calls made so far, oldest first.\<close>

type_synonym 'w st = "'w \<times> call list"

definition perform :: "call \<Rightarrow> ('w \<Rightarrow> 'r \<times> 'w) \<Rightarrow> 'w st \<Rightarrow> 'r \<times> 'w st" where
  "perform c f s = (case f (fst s) of (r, w') \<Rightarrow> (r, (w', snd s @ [c])))"

subsection \<open>setOrderState, setOrderStatus, syncOrderStatus\<close>

text \<open>\<^verbatim>\<open>setOrderState\<close>: the state is stored, and the failure time is set to the clock's
  reading when the stored state is classed as a failure state. The clock is read only
  then.\<close>

definition setOrderState :: "api \<Rightarrow> 'w env \<Rightarrow> OrderStatus \<Rightarrow> State \<Rightarrow> 'w st \<Rightarrow> OrderStatus \<times> 'w st" where
  "setOrderState a env o_st s st =
     (let o1 = o_st\<lparr>State := s\<rparr>
      in if IsFailureState a (State o1)
         then (case Now env (fst st) of
                 (t, w') \<Rightarrow> (o1\<lparr>FailureTime := Some t\<rparr>, (w', snd st)))
         else (o1, st))"

definition setOrderStatus :: "api \<Rightarrow> 'w env \<Rightarrow> OrderStatus \<Rightarrow> acme_Order \<Rightarrow> 'w st \<Rightarrow> OrderStatus \<times> 'w st" where
  "setOrderStatus a env o_st acmeOrder st =
     (let cmState = order_Status acmeOrder
      in case setOrderState a env o_st cmState st of
           (o1, st1) \<Rightarrow>
             (o1\<lparr>URL := order_URL acmeOrder,
                 FinalizeURL := order_FinalizeURL acmeOrder,
                 CertificateURL := order_CertificateURL acmeOrder\<rparr>, st1))"

definition syncOrderStatus :: "api \<Rightarrow> 'w env \<Rightarrow> client \<Rightarrow> Order \<Rightarrow> 'w st \<Rightarrow> error option \<times> Order \<times> 'w st" where
  "syncOrderStatus a env cl ord st =
     (if URL (Status ord) = [] then (Some ErrOrderURLBlank, ord, st)
      else (case perform (CallGetOrder cl (URL (Status ord))) (GetOrder env cl (URL (Status ord))) st of
              (Inl err, st1) \<Rightarrow> (Some (External err), ord, st1)
            | (Inr acmeOrder, st1) \<Rightarrow>
                (case setOrderStatus a env (Status ord) acmeOrder st1 of
                   (o1, st2) \<Rightarrow> (None, ord\<lparr>Status := o1\<rparr>, st2))))"

subsection \<open>solverConfigurationForAuthorization\<close>

text \<open>The inner loop over \<^verbatim>\<open>d.Domains\<close>: it returns from the function at the first
  domain equal to the one looked for.\<close>

fun domains_loop :: "string list \<Rightarrow> string \<Rightarrow> bool" where
  "domains_loop [] domainToFind = False"
| "domains_loop (d # ds) domainToFind =
     (if d \<noteq> domainToFind then domains_loop ds domainToFind else True)"

fun cfgs_loop :: "DomainSolverConfig list \<Rightarrow> string \<Rightarrow> SolverConfig option" where
  "cfgs_loop [] domainToFind = None"
| "cfgs_loop (d # cfgs) domainToFind =
     (if domains_loop (Domains d) domainToFind then Some (Solver d)
      else cfgs_loop cfgs domainToFind)"

definition domainToFind_of :: "acme_Authorization \<Rightarrow> string" where
  "domainToFind_of authz =
     (let domainToFind = authz_Identifier_Value authz
      in if authz_Wildcard authz then ''*.'' @ domainToFind else domainToFind)"

definition solverConfigurationForAuthorization ::
  "DomainSolverConfig list \<Rightarrow> acme_Authorization \<Rightarrow> error + SolverConfig" where
  "solverConfigurationForAuthorization cfgs authz =
     (let domainToFind = domainToFind_of authz
      in case cfgs_loop cfgs domainToFind of
           Some cfg \<Rightarrow> Inr cfg
         | None \<Rightarrow> Inl (ErrSolverConfigNotFound domainToFind))"

subsection \<open>keyForChallenge, challengeSpecForAuthorization\<close>

definition keyForChallenge :: "'w env \<Rightarrow> client \<Rightarrow> acme_Challenge \<Rightarrow> 'w st \<Rightarrow> (error + string) \<times> 'w st" where
  "keyForChallenge env cl challenge st =
     (if ch_Type challenge = ''http-01''
      then (case perform (CallHTTP01ChallengeResponse cl (ch_Token challenge))
                   (HTTP01ChallengeResponse env cl (ch_Token challenge)) st of
              (Inl err, st1) \<Rightarrow> (Inl (External err), st1)
            | (Inr key, st1) \<Rightarrow> (Inr key, st1))
      else if ch_Type challenge = ''dns-01''
      then (case perform (CallDNS01ChallengeRecord cl (ch_Token challenge))
                   (DNS01ChallengeRecord env cl (ch_Token challenge)) st of
              (Inl err, st1) \<Rightarrow> (Inl (External err), st1)
            | (Inr key, st1) \<Rightarrow> (Inr key, st1))
      else (Inl (ErrUnsupportedChallengeType (ch_Type challenge)), st))"

text \<open>The loop over \<^verbatim>\<open>authz.Challenges\<close>: the variable \<^verbatim>\<open>challenge\<close> starts \<^verbatim>\<open>nil\<close> and is
  assigned at every offered challenge that one of the two cases of the \<^verbatim>\<open>switch\<close>
  accepts. There is no \<^verbatim>\<open>break\<close>.\<close>

fun challenge_loop :: "SolverConfig \<Rightarrow> ACMEIssuer \<Rightarrow> acme_Challenge list \<Rightarrow> acme_Challenge option \<Rightarrow> acme_Challenge option" where
  "challenge_loop cfg acmeSpec [] challenge = challenge"
| "challenge_loop cfg acmeSpec (ch # chs) challenge =
     (if ch_Type ch = ''http-01'' \<and> HTTP01 cfg \<noteq> None \<and> issuer_HTTP01 acmeSpec \<noteq> None
      then challenge_loop cfg acmeSpec chs (Some ch)
      else if ch_Type ch = ''dns-01'' \<and> DNS01 cfg \<noteq> None \<and> issuer_DNS01 acmeSpec \<noteq> None
      then challenge_loop cfg acmeSpec chs (Some ch)
      else challenge_loop cfg acmeSpec chs challenge)"

definition challengeSpecForAuthorization ::
  "'w env \<Rightarrow> client \<Rightarrow> GenericIssuer \<Rightarrow> Order \<Rightarrow> acme_Authorization \<Rightarrow> 'w st \<Rightarrow> (error + ChallengeSpec) \<times> 'w st" where
  "challengeSpecForAuthorization env cl issuer ord authz st =
     (case solverConfigurationForAuthorization (Config (Spec ord)) authz of
        Inl err \<Rightarrow> (Inl err, st)
      | Inr cfg \<Rightarrow>
         (case issuer_ACME issuer of
            None \<Rightarrow> (Inl (ErrNotACMEIssuer (issuer_Name issuer)), st)
          | Some acmeSpec \<Rightarrow>
             (let domain = authz_Identifier_Value authz
              in case challenge_loop cfg acmeSpec (authz_Challenges authz) None of
                   None \<Rightarrow> (Inl (ErrNoAcceptableChallenge domain), st)
                 | Some challenge \<Rightarrow>
                    (case keyForChallenge env cl challenge st of
                       (Inl err, st1) \<Rightarrow> (Inl err, st1)
                     | (Inr key, st1) \<Rightarrow>
                        (Inr \<lparr>spec_AuthzURL = authz_URL authz,
                              spec_Type = ch_Type challenge,
                              spec_URL = ch_URL challenge,
                              spec_DNSName = domain,
                              spec_Token = ch_Token challenge,
                              spec_Key = key,
                              spec_Config = cfg,
                              spec_Wildcard = authz_Wildcard authz,
                              spec_IssuerRef = IssuerRef (Spec ord)\<rparr>, st1)))))"

subsection \<open>createOrder\<close>

text \<open>\<^verbatim>\<open>sets.NewString(...).Insert(...).List()\<close>: the names without duplicates, sorted.\<close>

definition identifierSet_List :: "OrderSpec \<Rightarrow> string list" where
  "identifierSet_List sp =
     sort (remdups (if CommonName sp \<noteq> [] then DNSNames sp @ [CommonName sp] else DNSNames sp))"

text \<open>The loop over \<^verbatim>\<open>acmeOrder.Authorizations\<close>, filling \<^verbatim>\<open>chals\<close> in index order. It
  returns from \<^verbatim>\<open>createOrder\<close> at the first authorization that cannot be fetched or
  for which no challenge spec can be built.\<close>

fun authz_loop :: "'w env \<Rightarrow> client \<Rightarrow> GenericIssuer \<Rightarrow> Order \<Rightarrow> string list \<Rightarrow> 'w st \<Rightarrow> (error + ChallengeSpec list) \<times> 'w st" where
  "authz_loop env cl issuer ord [] st = (Inr [], st)"
| "authz_loop env cl issuer ord (authzURL # rest) st =
     (case perform (CallGetAuthorization cl authzURL) (GetAuthorization env cl authzURL) st of
        (Inl err, st1) \<Rightarrow> (Inl (External err), st1)
      | (Inr authz, st1) \<Rightarrow>
         (case challengeSpecForAuthorization env cl issuer ord authz st1 of
            (Inl err, st2) \<Rightarrow> (Inl (ErrConstructingChallenge err), st2)
          | (Inr cs, st2) \<Rightarrow>
             (case authz_loop env cl issuer ord rest st2 of
                (Inl err, st3) \<Rightarrow> (Inl err, st3)
              | (Inr css, st3) \<Rightarrow> (Inr (cs # css), st3))))"

definition createOrder :: "api \<Rightarrow> 'w env \<Rightarrow> client \<Rightarrow> GenericIssuer \<Rightarrow> Order \<Rightarrow> 'w st \<Rightarrow> error option \<times> Order \<times> 'w st" where
  "createOrder a env cl issuer ord st =
     (if URL (Status ord) \<noteq> [] then (Some (ErrRefusingToRecreate (Name ord)), ord, st)
      else
       (let ids = identifierSet_List (Spec ord)
        in case perform (CallCreateOrder cl ids) (CreateOrder env cl ids) st of
             (Inl err, st1) \<Rightarrow> (Some (ErrCreatingNewOrder err), ord, st1)
           | (Inr acmeOrder, st1) \<Rightarrow>
              (case setOrderStatus a env (Status ord) acmeOrder st1 of
                 (o1, st2) \<Rightarrow>
                  (let ord1 = ord\<lparr>Status := o1\<rparr>
                   in case authz_loop env cl issuer ord1 (order_Authorizations acmeOrder) st2 of
                        (Inl err, st3) \<Rightarrow> (Some err, ord1, st3)
                      | (Inr chals, st3) \<Rightarrow>
                          (None, ord1\<lparr>Status := (Status ord1)\<lparr>Challenges := Some chals\<rparr>\<rparr>, st3)))))"

text \<open>The body of that loop for one authorization URL: the fetch, then the spec build,
  with the errors as the loop returns them.\<close>

definition fetch_and_build ::
  "'w env \<Rightarrow> client \<Rightarrow> GenericIssuer \<Rightarrow> Order \<Rightarrow> string \<Rightarrow> 'w st \<Rightarrow> (error + ChallengeSpec) \<times> 'w st" where
  "fetch_and_build env cl issuer ord authzURL st =
     (case perform (CallGetAuthorization cl authzURL) (GetAuthorization env cl authzURL) st of
        (Inl err, st1) \<Rightarrow> (Inl (External err), st1)
      | (Inr authz, st1) \<Rightarrow>
         (case challengeSpecForAuthorization env cl issuer ord authz st1 of
            (Inl err, st2) \<Rightarrow> (Inl (ErrConstructingChallenge err), st2)
          | (Inr cs, st2) \<Rightarrow> (Inr cs, st2)))"

subsection \<open>Challenge resources for an order\<close>

definition orderNameLabelKey :: string where
  "orderNameLabelKey = ''acme.cert-manager.io/order-name''"

definition challengeLabelsForOrder :: "Order \<Rightarrow> (string \<times> string) list" where
  "challengeLabelsForOrder ord = [(orderNameLabelKey, Name ord)]"

fun requirements_loop :: "api \<Rightarrow> (string \<times> string) list \<Rightarrow> selector \<Rightarrow> ext_error + selector" where
  "requirements_loop a [] reqs = Inr reqs"
| "requirements_loop a ((k, v) # lbls) reqs =
     (case NewRequirement a k v of
        Inl err \<Rightarrow> Inl err
      | Inr req \<Rightarrow> requirements_loop a lbls (reqs @ [req]))"

definition challengeSelectorForOrder :: "api \<Rightarrow> Order \<Rightarrow> ext_error + selector" where
  "challengeSelectorForOrder a ord = requirements_loop a (challengeLabelsForOrder ord) []"

text \<open>\<^verbatim>\<open>%d\<close> of \<^verbatim>\<open>fmt.Sprintf\<close> on an index.\<close>

fun decimal :: "nat \<Rightarrow> string" where
  "decimal n =
     (if n < 10 then [char_of (48 + n)]
      else decimal (n div 10) @ [char_of (48 + n mod 10)])"

definition buildChallenge :: "nat \<Rightarrow> Order \<Rightarrow> ChallengeSpec \<Rightarrow> Challenge" where
  "buildChallenge i ord chalSpec =
     \<lparr>chal_Name = Name ord @ ''-'' @ decimal i,
      chal_Labels = challengeLabelsForOrder ord,
      chal_OwnerReferences = [\<lparr>owner_Kind = ''Order'', owner_Name = Name ord, owner_Controller = True\<rparr>],
      chal_Spec = chalSpec,
      chal_State = []\<rparr>"

text \<open>The inner loop of the selection: \<^verbatim>\<open>create\<close> starts true and becomes false, with a
  \<^verbatim>\<open>break\<close>, at the first existing Challenge for the same DNS name.\<close>

fun create_flag :: "ChallengeSpec \<Rightarrow> Challenge list \<Rightarrow> bool" where
  "create_flag s [] = True"
| "create_flag s (ch # chs) =
     (if spec_DNSName s = spec_DNSName (chal_Spec ch) then False else create_flag s chs)"

text \<open>The outer loop over \<^verbatim>\<open>o.Status.Challenges\<close> from index \<open>i\<close> on: \<^verbatim>\<open>if !create { break }\<close>
  leaves the loop, otherwise \<^verbatim>\<open>specsToCreate[i] = s\<close>. The indices are distinct, so the
  Go map is the list of its entries.\<close>

fun specs_loop :: "Challenge list \<Rightarrow> nat \<Rightarrow> ChallengeSpec list \<Rightarrow> (nat \<times> ChallengeSpec) list" where
  "specs_loop existingChallenges i [] = []"
| "specs_loop existingChallenges i (s # ss) =
     (if \<not> create_flag s existingChallenges then []
      else (i, s) # specs_loop existingChallenges (Suc i) ss)"

text \<open>Ranging over a \<^verbatim>\<open>nil\<close> slice runs no iteration.\<close>

definition planned :: "Order \<Rightarrow> ChallengeSpec list" where
  "planned ord = (case Challenges (Status ord) of None \<Rightarrow> [] | Some cs \<Rightarrow> cs)"

definition specsToCreate :: "Order \<Rightarrow> Challenge list \<Rightarrow> (nat \<times> ChallengeSpec) list" where
  "specsToCreate ord existingChallenges = specs_loop existingChallenges 0 (planned ord)"

text \<open>The creation loop: a failed \<^verbatim>\<open>Create\<close> is collected and the loop continues, a
  created Challenge is appended to the existing ones.\<close>

fun create_loop :: "'w env \<Rightarrow> Order \<Rightarrow> (nat \<times> ChallengeSpec) list \<Rightarrow> Challenge list \<Rightarrow> error list \<Rightarrow> 'w st
    \<Rightarrow> error list \<times> Challenge list \<times> 'w st" where
  "create_loop env ord [] existingChallenges errs st = (errs, existingChallenges, st)"
| "create_loop env ord ((i, spec) # rest) existingChallenges errs st =
     (let ch = buildChallenge i ord spec
      in case perform (CallCreateChallenge (Namespace ord) ch) (CreateChallenge env (Namespace ord) ch) st of
           (Inl err, st1) \<Rightarrow> create_loop env ord rest existingChallenges (errs @ [External err]) st1
         | (Inr ch', st1) \<Rightarrow> create_loop env ord rest (existingChallenges @ [ch']) errs st1)"

text \<open>The loop that sets \<^verbatim>\<open>recheckOrderStatus\<close> and \<^verbatim>\<open>anyChallengesFailed\<close>.\<close>

fun readiness_loop :: "api \<Rightarrow> Challenge list \<Rightarrow> bool \<times> bool \<Rightarrow> bool \<times> bool" where
  "readiness_loop a [] flags = flags"
| "readiness_loop a (ch # chs) (recheckOrderStatus, anyChallengesFailed) =
     (if chal_State ch = Pending a \<or> chal_State ch = Processing a
      then readiness_loop a chs (False, anyChallengesFailed)
      else if chal_State ch = Failed a \<or> chal_State ch = Expired a
      then readiness_loop a chs (recheckOrderStatus, True)
      else readiness_loop a chs (recheckOrderStatus, anyChallengesFailed))"

subsection \<open>Sync\<close>

text \<open>Lines 115 to 189 of \<^verbatim>\<open>Sync\<close>: what follows the \<^verbatim>\<open>switch\<close> for an order that is
  pending or processing.\<close>

definition Sync_challenges :: "api \<Rightarrow> 'w env \<Rightarrow> client \<Rightarrow> Order \<Rightarrow> 'w st \<Rightarrow> error option \<times> Order \<times> 'w st" where
  "Sync_challenges a env cl ord st =
     (case challengeSelectorForOrder a ord of
        Inl err \<Rightarrow> (Some (External err), ord, st)
      | Inr sel \<Rightarrow>
         (case perform (CallListChallenges (Namespace ord) sel) (ListChallenges env (Namespace ord) sel) st of
            (Inl err, st1) \<Rightarrow> (Some (External err), ord, st1)
          | (Inr existingChallenges, st1) \<Rightarrow>
             (case create_loop env ord (map_range a (specsToCreate ord existingChallenges))
                     existingChallenges [] st1 of
                (errs, existingChallenges', st2) \<Rightarrow>
                 (case NewAggregate (map Some errs) of
                    Some err \<Rightarrow> (Some (ErrEnsuringChallenges err), ord, st2)
                  | None \<Rightarrow>
                     (case readiness_loop a existingChallenges' (True, False) of
                        (recheckOrderStatus, anyChallengesFailed) \<Rightarrow>
                          if \<not> recheckOrderStatus \<and> \<not> anyChallengesFailed then (None, ord, st2)
                          else syncOrderStatus a env cl ord st2)))))"

text \<open>The body of \<^verbatim>\<open>Sync\<close> on the deep copy of the order, up to its \<^verbatim>\<open>return\<close>: the value
  of the named result \<^verbatim>\<open>err\<close>, the copy as the body leaves it, and the world.\<close>

definition Sync_body :: "api \<Rightarrow> 'w env \<Rightarrow> Order \<Rightarrow> 'w st \<Rightarrow> error option \<times> Order \<times> 'w st" where
  "Sync_body a env ord st =
     (case perform (CallGetGenericIssuer (IssuerRef (Spec ord)) (Namespace ord))
             (GetGenericIssuer env (IssuerRef (Spec ord)) (Namespace ord)) st of
        (Inl err, st1) \<Rightarrow> (Some (ErrReadingIssuer (ref_Name (IssuerRef (Spec ord))) err), ord, st1)
      | (Inr genericIssuer, st1) \<Rightarrow>
         (case perform (CallClientForIssuer genericIssuer) (ClientForIssuer env genericIssuer) st1 of
            (Inl err, st2) \<Rightarrow> (Some (External err), ord, st2)
          | (Inr cl, st2) \<Rightarrow>
             if URL (Status ord) = [] then createOrder a env cl genericIssuer ord st2
             else if IsFinalState a (State (Status ord)) then (None, ord, st2)
             else if State (Status ord) = Unknown a then
               (case syncOrderStatus a env cl ord st2 of
                  (Some err, ord1, st3) \<Rightarrow> (Some err, ord1, st3)
                | (None, ord1, st3) \<Rightarrow> (Some ErrUpdatedUnknownState, ord1, st3))
             else if State (Status ord) = Ready a then
               (case perform (CallFinalizeOrder cl (FinalizeURL (Status ord)) (CSR (Spec ord)))
                       (FinalizeOrder env cl (FinalizeURL (Status ord)) (CSR (Spec ord))) st2 of
                  (err, st3) \<Rightarrow>
                   (case syncOrderStatus a env cl ord st3 of
                      (Some errUpdate, ord1, st4) \<Rightarrow> (Some (ErrSyncingOrderStatus errUpdate), ord1, st4)
                    | (None, ord1, st4) \<Rightarrow>
                       (case err of
                          Some e \<Rightarrow> (Some (ErrFinalizingOrder e), ord1, st4)
                        | None \<Rightarrow> (None, ord1, st4))))
             else if State (Status ord) = Pending a \<or> State (Status ord) = Processing a
             then Sync_challenges a env cl ord st2
             else (Some (ErrUnknownOrderState (State (Status ord))), ord, st2)))"

text \<open>\<^verbatim>\<open>Sync\<close> with its deferred function: when the status of the copy differs from the
  status of the order passed in, the copy is sent to \<^verbatim>\<open>Update\<close>, and the result of that
  is aggregated with \<^verbatim>\<open>err\<close> under the test \<^verbatim>\<open>err != nil\<close>.\<close>

definition Sync :: "api \<Rightarrow> 'w env \<Rightarrow> Order \<Rightarrow> 'w st \<Rightarrow> error option \<times> Order \<times> 'w st" where
  "Sync a env oldOrder st =
     (case Sync_body a env oldOrder st of
        (err, ord, st1) \<Rightarrow>
          if Status oldOrder = Status ord then (err, ord, st1)
          else (case perform (CallUpdateOrder (Namespace ord) ord) (UpdateOrder env (Namespace ord) ord) st1 of
                  (updateErr, st2) \<Rightarrow>
                    (if err \<noteq> None then NewAggregate [err, map_option External updateErr] else err, ord, st2)))"

subsection \<open>The conditions of the specification\<close>

text \<open>A challenge type is usable when the matched solver configuration and the issuer's
  ACME block both enable it.\<close>

definition enabled_in_both :: "SolverConfig \<Rightarrow> ACMEIssuer \<Rightarrow> acme_Challenge \<Rightarrow> bool" where
  "enabled_in_both cfg acmeSpec ch =
     ((ch_Type ch = ''http-01'' \<and> HTTP01 cfg \<noteq> None \<and> issuer_HTTP01 acmeSpec \<noteq> None) \<or>
      (ch_Type ch = ''dns-01'' \<and> DNS01 cfg \<noteq> None \<and> issuer_DNS01 acmeSpec \<noteq> None))"

text \<open>A planned entry has an existing Challenge when one of the listed Challenges is for
  the same DNS name.\<close>

definition has_existing :: "Challenge list \<Rightarrow> ChallengeSpec \<Rightarrow> bool" where
  "has_existing existingChallenges s =
     (spec_DNSName s \<in> set (map (\<lambda>ch. spec_DNSName (chal_Spec ch)) existingChallenges))"

text \<open>The index of the first planned entry that has an existing Challenge, or the number
  of planned entries when none has.\<close>

definition first_existing :: "Challenge list \<Rightarrow> ChallengeSpec list \<Rightarrow> nat" where
  "first_existing existingChallenges ps =
     length (takeWhile (\<lambda>s. \<not> has_existing existingChallenges s) ps)"

text \<open>The calls of a run of \<^verbatim>\<open>Sync\<close>, and those among them that create a Challenge.\<close>

definition Sync_trace :: "api \<Rightarrow> 'w env \<Rightarrow> Order \<Rightarrow> 'w st \<Rightarrow> call list" where
  "Sync_trace a env ord st = snd (snd (snd (Sync a env ord st)))"

text \<open>Two reconciliations in a row: the second run of \<^verbatim>\<open>Sync\<close> gets the order and the
  world as the first run left them.\<close>

definition Sync_twice :: "api \<Rightarrow> 'w env \<Rightarrow> Order \<Rightarrow> 'w st \<Rightarrow> error option \<times> Order \<times> 'w st" where
  "Sync_twice a env ord st = (case Sync a env ord st of (err1, ord1, st1) \<Rightarrow> Sync a env ord1 st1)"

fun is_create :: "call \<Rightarrow> bool" where
  "is_create (CallCreateChallenge ns ch) = True"
| "is_create c = False"

definition create_calls :: "Order \<Rightarrow> (nat \<times> ChallengeSpec) list \<Rightarrow> call list" where
  "create_calls ord specs =
     map (\<lambda>(i, s). CallCreateChallenge (Namespace ord) (buildChallenge i ord s)) specs"

subsection \<open>A concrete setting\<close>

text \<open>State names as the ACME protocol spells them, a world that is a clock, and
  collaborators that always succeed; the examples below change one collaborator at a
  time.\<close>

definition ex_api :: api where
  "ex_api =
     \<lparr>Unknown = [], Ready = ''ready'', Pending = ''pending'', Processing = ''processing'',
      Failed = ''failed'', Expired = ''expired'',
      IsFinalState = (\<lambda>s. s \<in> set [''valid'', ''invalid'', ''failed'', ''expired'']),
      IsFailureState = (\<lambda>s. s \<in> set [''invalid'', ''failed'', ''expired'']),
      NewRequirement = (\<lambda>k v. Inr (k, v)),
      map_range = (\<lambda>xs. xs)\<rparr>"

definition ex_issuer :: GenericIssuer where
  "ex_issuer = \<lparr>issuer_Name = ''le'', issuer_ACME = Some \<lparr>issuer_HTTP01 = Some [], issuer_DNS01 = Some []\<rparr>\<rparr>"

definition ex_challenges :: "acme_Challenge list" where
  "ex_challenges =
     [\<lparr>ch_Type = ''dns-01'', ch_URL = ''c/1'', ch_Token = ''t1''\<rparr>,
      \<lparr>ch_Type = ''http-01'', ch_URL = ''c/2'', ch_Token = ''t2''\<rparr>]"

definition ex_authz :: acme_Authorization where
  "ex_authz =
     \<lparr>authz_URL = ''z/1'', authz_Identifier_Value = ''a.com'', authz_Wildcard = False,
      authz_Challenges = ex_challenges\<rparr>"

definition ex_acme_order :: "string \<Rightarrow> acme_Order" where
  "ex_acme_order status =
     \<lparr>order_URL = ''o/1'', order_Status = status, order_FinalizeURL = ''o/1/f'',
      order_CertificateURL = [], order_Authorizations = [''z/1'']\<rparr>"

definition ex_env :: "nat env" where
  "ex_env =
     \<lparr>Now = (\<lambda>w. (w, Suc w)),
      GetGenericIssuer = (\<lambda>r ns w. (Inr ex_issuer, Suc w)),
      ClientForIssuer = (\<lambda>i w. (Inr ''cl'', Suc w)),
      CreateOrder = (\<lambda>cl ids w. (Inr (ex_acme_order ''pending''), Suc w)),
      GetOrder = (\<lambda>cl url w. (Inr (ex_acme_order ''failed''), Suc w)),
      GetAuthorization = (\<lambda>cl url w. (Inr ex_authz, Suc w)),
      FinalizeOrder = (\<lambda>cl url csr w. (None, Suc w)),
      HTTP01ChallengeResponse = (\<lambda>cl tok w. (Inr (tok @ ''.k''), w)),
      DNS01ChallengeRecord = (\<lambda>cl tok w. (Inr (tok @ ''.d''), w)),
      ListChallenges = (\<lambda>ns sel w. (Inr [], Suc w)),
      CreateChallenge = (\<lambda>ns ch w. (Inr ch, Suc w)),
      UpdateOrder = (\<lambda>ns ord w. (None, Suc w))\<rparr>"

definition ex_solver :: SolverConfig where
  "ex_solver = \<lparr>HTTP01 = Some [], DNS01 = Some []\<rparr>"

definition ex_spec :: OrderSpec where
  "ex_spec =
     \<lparr>CSR = ''csr'', IssuerRef = \<lparr>ref_Name = ''le'', ref_Kind = ''Issuer''\<rparr>, CommonName = [],
      DNSNames = [''a.com''],
      Config = [\<lparr>Domains = [''b.com''], Solver = \<lparr>HTTP01 = Some [], DNS01 = None\<rparr>\<rparr>,
                \<lparr>Domains = [''*.a.com'', ''a.com''], Solver = ex_solver\<rparr>,
                \<lparr>Domains = [''a.com''], Solver = \<lparr>HTTP01 = None, DNS01 = Some []\<rparr>\<rparr>]\<rparr>"

definition ex_status :: "string \<Rightarrow> State \<Rightarrow> OrderStatus" where
  "ex_status url state =
     \<lparr>URL = url, FinalizeURL = [], CertificateURL = [], State = state,
      Challenges = None, FailureTime = None\<rparr>"

definition ex_order :: "string \<Rightarrow> State \<Rightarrow> Order" where
  "ex_order url state =
     \<lparr>Name = ''ord'', Namespace = ''ns'', Spec = ex_spec, Status = ex_status url state\<rparr>"

definition ex_env_no_issuer :: "nat env" where
  "ex_env_no_issuer = ex_env\<lparr>GetGenericIssuer := (\<lambda>r ns w. (Inl ''no issuer'', Suc w))\<rparr>"

definition ex_env_update_fails :: "nat env" where
  "ex_env_update_fails = ex_env\<lparr>UpdateOrder := (\<lambda>ns ord w. (Some ''conflict'', Suc w))\<rparr>"

definition ex_failed :: Order where
  "ex_failed = (ex_order ''o/1'' ''failed'')\<lparr>Status := (ex_status ''o/1'' ''failed'')\<lparr>FailureTime := Some 2\<rparr>\<rparr>"

definition ex_acme_order2 :: acme_Order where
  "ex_acme_order2 = (ex_acme_order ''pending'')\<lparr>order_Authorizations := [''z/1'', ''z/2'']\<rparr>"

definition ex_env_second_fetch_fails :: "nat env" where
  "ex_env_second_fetch_fails =
     ex_env\<lparr>CreateOrder := (\<lambda>cl ids w. (Inr ex_acme_order2, Suc w)),
            GetAuthorization := (\<lambda>cl url w. (if url = ''z/2'' then Inl ''timeout'' else Inr ex_authz, Suc w))\<rparr>"

definition ex_env_finalize_fails :: "nat env" where
  "ex_env_finalize_fails = ex_env\<lparr>FinalizeOrder := (\<lambda>cl url csr w. (Some ''bad csr'', Suc w))\<rparr>"

definition ex_env_both_fail :: "nat env" where
  "ex_env_both_fail = ex_env_finalize_fails\<lparr>GetOrder := (\<lambda>cl url w. (Inl ''timeout'', Suc w))\<rparr>"

definition ex_chalspec :: "string \<Rightarrow> ChallengeSpec" where
  "ex_chalspec d =
     \<lparr>spec_AuthzURL = ''z/1'', spec_Type = ''http-01'', spec_URL = ''c/2'', spec_DNSName = d,
      spec_Token = ''t2'', spec_Key = ''t2.k'', spec_Config = ex_solver, spec_Wildcard = False,
      spec_IssuerRef = \<lparr>ref_Name = ''le'', ref_Kind = ''Issuer''\<rparr>\<rparr>"

definition ex_pending :: Order where
  "ex_pending =
     (ex_order ''o/1'' ''pending'')
       \<lparr>Status := (ex_status ''o/1'' ''pending'')
          \<lparr>Challenges := Some [ex_chalspec ''a.com'', ex_chalspec ''b.com'', ex_chalspec ''c.com'']\<rparr>\<rparr>"

definition ex_existing :: "Challenge list" where
  "ex_existing = [(buildChallenge 1 ex_pending (ex_chalspec ''b.com''))\<lparr>chal_State := ''pending''\<rparr>]"

definition ex_env_listed :: "nat env" where
  "ex_env_listed = ex_env\<lparr>ListChallenges := (\<lambda>ns sel w. (Inr ex_existing, Suc w))\<rparr>"

lemmas ex_defs = ex_api_def ex_issuer_def ex_challenges_def ex_authz_def ex_acme_order_def
  ex_env_def ex_solver_def ex_spec_def ex_status_def ex_order_def

section \<open>Properties\<close>

subsection \<open>The solver configuration of an authorization\<close>

lemma domains_loop_set: "domains_loop ds k = (k \<in> set ds)"
  by (induction ds) auto

lemma cfgs_loop_find:
  "cfgs_loop cfgs k = map_option Solver (find (\<lambda>d. k \<in> set (Domains d)) cfgs)"
  by (induction cfgs) (auto simp: domains_loop_set)

text \<open>
  C7. The lookup key is the identifier value of the authorization, with \<^verbatim>\<open>*.\<close> in front
  exactly when the authorization is a wildcard one. The result is the solver
  configuration of the first entry of the list, in order, whose domains contain the key
  (\<open>find\<close> returns the first element that satisfies the test), and the
  configuration-not-found error for that key when no entry does.
\<close>

theorem solverConfigurationForAuthorization_first_match:
  "solverConfigurationForAuthorization cfgs authz =
     (let key = (if authz_Wildcard authz then ''*.'' @ authz_Identifier_Value authz
                 else authz_Identifier_Value authz)
      in case find (\<lambda>d. key \<in> set (Domains d)) cfgs of
           None \<Rightarrow> Inl (ErrSolverConfigNotFound key)
         | Some d \<Rightarrow> Inr (Solver d))"
  by (simp add: solverConfigurationForAuthorization_def domainToFind_of_def cfgs_loop_find Let_def
      split: option.splits)

text \<open>Three lookups in a list of three entries: a wildcard authorization for a.com finds
  the second entry through \<^verbatim>\<open>*.a.com\<close>; a plain one finds the second entry too, although
  the third lists a.com as well; c.com is in no entry.\<close>

theorem solverConfigurationForAuthorization_first_match_witness:
  "solverConfigurationForAuthorization (Config ex_spec) (ex_authz\<lparr>authz_Wildcard := True\<rparr>) = Inr ex_solver
   \<and> solverConfigurationForAuthorization (Config ex_spec) ex_authz = Inr ex_solver
   \<and> solverConfigurationForAuthorization (Config ex_spec) (ex_authz\<lparr>authz_Identifier_Value := ''c.com''\<rparr>)
       = Inl (ErrSolverConfigNotFound ''c.com'')"
  using solverConfigurationForAuthorization_first_match [of "Config ex_spec" "ex_authz\<lparr>authz_Wildcard := True\<rparr>"]
    solverConfigurationForAuthorization_first_match [of "Config ex_spec" ex_authz]
    solverConfigurationForAuthorization_first_match [of "Config ex_spec" "ex_authz\<lparr>authz_Identifier_Value := ''c.com''\<rparr>"]
  by (simp add: ex_defs)

subsection \<open>The challenge chosen for an authorization\<close>

lemma challenge_loop_last:
  "challenge_loop cfg acmeSpec chs acc =
     (if filter (enabled_in_both cfg acmeSpec) chs = [] then acc
      else Some (last (filter (enabled_in_both cfg acmeSpec) chs)))"
  by (induction chs arbitrary: acc) (auto simp: enabled_in_both_def)

lemma challenge_loop_type:
  assumes "challenge_loop cfg acmeSpec chs None = Some c"
  shows "ch_Type c = ''http-01'' \<or> ch_Type c = ''dns-01''"
proof -
  let ?ok = "filter (enabled_in_both cfg acmeSpec) chs"
  from assms have ne: "?ok \<noteq> []" and c: "c = last ?ok"
    by (auto simp: challenge_loop_last split: if_splits)
  from ne have "last ?ok \<in> set ?ok" by (rule last_in_set)
  with c have "enabled_in_both cfg acmeSpec c" by simp
  then show ?thesis by (auto simp: enabled_in_both_def)
qed

text \<open>
  C1. When the solver configuration is found, the issuer is an ACME issuer and at least
  one offered challenge is enabled in both, the loop ends with the last such challenge of
  the offered list, in the order of the list, and \<^verbatim>\<open>challengeSpecForAuthorization\<close> asks
  the client for the key of that challenge and builds the spec from its type, URL and
  token (or returns the error of the key computation).
\<close>

theorem challengeSpecForAuthorization_last_match:
  assumes "solverConfigurationForAuthorization (Config (Spec ord)) authz = Inr cfg"
    and "issuer_ACME issuer = Some acmeSpec"
    and "filter (enabled_in_both cfg acmeSpec) (authz_Challenges authz) \<noteq> []"
  shows "challenge_loop cfg acmeSpec (authz_Challenges authz) None
           = Some (last (filter (enabled_in_both cfg acmeSpec) (authz_Challenges authz)))
       \<and> challengeSpecForAuthorization env cl issuer ord authz st =
           (let challenge = last (filter (enabled_in_both cfg acmeSpec) (authz_Challenges authz))
            in case keyForChallenge env cl challenge st of
                 (Inl err, st1) \<Rightarrow> (Inl err, st1)
               | (Inr key, st1) \<Rightarrow>
                   (Inr \<lparr>spec_AuthzURL = authz_URL authz,
                         spec_Type = ch_Type challenge,
                         spec_URL = ch_URL challenge,
                         spec_DNSName = authz_Identifier_Value authz,
                         spec_Token = ch_Token challenge,
                         spec_Key = key,
                         spec_Config = cfg,
                         spec_Wildcard = authz_Wildcard authz,
                         spec_IssuerRef = IssuerRef (Spec ord)\<rparr>, st1))"
  using assms
  by (simp add: challengeSpecForAuthorization_def challenge_loop_last Let_def)

text \<open>An authorization that offers dns-01 and then http-01, both enabled in the solver
  configuration and in the issuer: http-01 is chosen.\<close>

theorem challengeSpecForAuthorization_last_match_witness:
  "map ch_Type (authz_Challenges ex_authz) = [''dns-01'', ''http-01'']
   \<and> filter (enabled_in_both ex_solver (the (issuer_ACME ex_issuer))) (authz_Challenges ex_authz)
        = authz_Challenges ex_authz
   \<and> challenge_loop ex_solver (the (issuer_ACME ex_issuer)) (authz_Challenges ex_authz) None
        = Some \<lparr>ch_Type = ''http-01'', ch_URL = ''c/2'', ch_Token = ''t2''\<rparr>
   \<and> map_sum id spec_Type
        (fst (challengeSpecForAuthorization ex_env ''cl'' ex_issuer (ex_order [] []) ex_authz (0, [])))
        = Inr ''http-01''"
proof -
  have 1: "solverConfigurationForAuthorization (Config (Spec (ex_order [] []))) ex_authz = Inr ex_solver"
    by (simp add: ex_defs solverConfigurationForAuthorization_def domainToFind_of_def)
  have 2: "issuer_ACME ex_issuer = Some \<lparr>issuer_HTTP01 = Some [], issuer_DNS01 = Some []\<rparr>"
    by (simp add: ex_defs)
  have 3: "filter (enabled_in_both ex_solver \<lparr>issuer_HTTP01 = Some [], issuer_DNS01 = Some []\<rparr>)
             (authz_Challenges ex_authz) \<noteq> []"
    by (simp add: ex_defs enabled_in_both_def)
  show ?thesis
    using challengeSpecForAuthorization_last_match [OF 1 2 3, of ex_env "''cl''" "(0, [])"]
    by (simp add: ex_defs enabled_in_both_def keyForChallenge_def perform_def)
qed

text \<open>
  C10. A challenge spec that \<^verbatim>\<open>challengeSpecForAuthorization\<close> returns has the type http-01
  or dns-01; the function never returns the unsupported-challenge-type error, and
  \<^verbatim>\<open>keyForChallenge\<close> does not reach that branch on a challenge that the selection loop
  of the function has chosen.
\<close>

theorem challengeSpecForAuthorization_type_supported:
  assumes "challengeSpecForAuthorization env cl issuer ord authz st = (r, st')"
  shows "(\<forall>cs. r = Inr cs \<longrightarrow> spec_Type cs = ''http-01'' \<or> spec_Type cs = ''dns-01'')
       \<and> (\<forall>t. r \<noteq> Inl (ErrUnsupportedChallengeType t))
       \<and> (\<forall>cfg acmeSpec challenge s t.
            challenge_loop cfg acmeSpec (authz_Challenges authz) None = Some challenge \<longrightarrow>
            fst (keyForChallenge env cl challenge s) \<noteq> Inl (ErrUnsupportedChallengeType t))"
proof (intro conjI allI impI)
  fix cs assume "r = Inr cs"
  with assms show "spec_Type cs = ''http-01'' \<or> spec_Type cs = ''dns-01''"
    by (auto simp: challengeSpecForAuthorization_def Let_def
        split: sum.splits option.splits prod.splits dest: challenge_loop_type)
next
  fix t
  show "r \<noteq> Inl (ErrUnsupportedChallengeType t)"
    using assms
    by (auto simp: challengeSpecForAuthorization_def solverConfigurationForAuthorization_def
        keyForChallenge_def Let_def
        split: sum.splits option.splits prod.splits if_splits dest: challenge_loop_type)
next
  fix cfg acmeSpec challenge s t
  assume "challenge_loop cfg acmeSpec (authz_Challenges authz) None = Some challenge"
  then have "ch_Type challenge = ''http-01'' \<or> ch_Type challenge = ''dns-01''"
    by (rule challenge_loop_type)
  then show "fst (keyForChallenge env cl challenge s) \<noteq> Inl (ErrUnsupportedChallengeType t)"
    by (auto simp: keyForChallenge_def split: sum.splits prod.splits)
qed

theorem challengeSpecForAuthorization_type_supported_witness:
  "\<exists>cs st'. challengeSpecForAuthorization ex_env ''cl'' ex_issuer (ex_order [] []) ex_authz (0, []) = (Inr cs, st')
     \<and> (spec_Type cs = ''http-01'' \<or> spec_Type cs = ''dns-01'')"
proof -
  obtain r st' where eq:
    "challengeSpecForAuthorization ex_env ''cl'' ex_issuer (ex_order [] []) ex_authz (0, []) = (r, st')"
    by (cases "challengeSpecForAuthorization ex_env ''cl'' ex_issuer (ex_order [] []) ex_authz (0, [])")
  have "\<exists>cs. r = Inr cs"
    using eq
    by (auto simp: ex_defs challengeSpecForAuthorization_def solverConfigurationForAuthorization_def
        domainToFind_of_def keyForChallenge_def perform_def)
  then obtain cs where r: "r = Inr cs" ..
  from challengeSpecForAuthorization_type_supported [OF eq] r
  have "spec_Type cs = ''http-01'' \<or> spec_Type cs = ''dns-01''" by blast
  with eq r show ?thesis by blast
qed

subsection \<open>The failure time\<close>

lemma Sync_leaves_undispatched:
  assumes "URL (Status ord) \<noteq> []"
    and "IsFinalState a (State (Status ord))
         \<or> (State (Status ord) \<noteq> Unknown a \<and> State (Status ord) \<noteq> Ready a
            \<and> State (Status ord) \<noteq> Pending a \<and> State (Status ord) \<noteq> Processing a)"
  shows "fst (snd (Sync a env ord st)) = ord"
  using assms
  by (auto simp: Sync_def Sync_body_def perform_def split: prod.splits sum.splits)

text \<open>
  C4, as the code has it. Whenever \<^verbatim>\<open>setOrderState\<close> sets a state that is classed as a
  failure state, the failure time becomes the reading of the clock, whatever the state
  and the failure time were before (so also when the order was in that failure state
  already). When the status of an order in the failed state is synchronised twice with a
  server that reports the failed state both times (\<^verbatim>\<open>syncOrderStatus\<close>, which goes
  through \<^verbatim>\<open>setOrderStatus\<close> to \<^verbatim>\<open>setOrderState\<close>), the failure time is the clock's
  reading of the first run after the first and of the second run after the second. A
  reconciliation does not get there for such an order: \<^verbatim>\<open>Sync\<close> on an order with a
  status URL whose state is classed as final, or is none of \<^verbatim>\<open>Unknown\<close>, \<^verbatim>\<open>Ready\<close>,
  \<^verbatim>\<open>Pending\<close> and \<^verbatim>\<open>Processing\<close>, leaves the order as it is, failure time included, and
  so does a second \<^verbatim>\<open>Sync\<close> after it.
\<close>

theorem setOrderState_failure_time_overwritten:
  "(IsFailureState a s \<longrightarrow>
      setOrderState a env o_st s (w, tr) =
        (case Now env w of (t, w') \<Rightarrow> (o_st\<lparr>State := s, FailureTime := Some t\<rparr>, (w', tr))))
   \<and> (State (Status ord) = Failed a \<and> IsFailureState a (Failed a) \<and> URL (Status ord) \<noteq> []
      \<and> GetOrder env cl (URL (Status ord)) w = (Inr ao1, w1) \<and> order_Status ao1 = Failed a
      \<and> order_URL ao1 \<noteq> [] \<and> Now env w1 = (t1, w2)
      \<and> GetOrder env cl (order_URL ao1) w2 = (Inr ao2, w3) \<and> order_Status ao2 = Failed a
      \<and> Now env w3 = (t2, w4) \<longrightarrow>
      (\<exists>ord1 tr1 ord2 tr2.
         syncOrderStatus a env cl ord (w, tr) = (None, ord1, (w2, tr1))
         \<and> State (Status ord1) = Failed a \<and> FailureTime (Status ord1) = Some t1
         \<and> syncOrderStatus a env cl ord1 (w2, tr1) = (None, ord2, (w4, tr2))
         \<and> State (Status ord2) = Failed a \<and> FailureTime (Status ord2) = Some t2))
   \<and> (URL (Status ord) \<noteq> []
      \<and> (IsFinalState a (State (Status ord))
          \<or> (State (Status ord) \<noteq> Unknown a \<and> State (Status ord) \<noteq> Ready a
             \<and> State (Status ord) \<noteq> Pending a \<and> State (Status ord) \<noteq> Processing a)) \<longrightarrow>
      fst (snd (Sync a env ord (w, tr))) = ord
      \<and> fst (snd (Sync_twice a env ord (w, tr))) = ord)"
proof (intro conjI impI)
  assume "IsFailureState a s"
  then show "setOrderState a env o_st s (w, tr) =
        (case Now env w of (t, w') \<Rightarrow> (o_st\<lparr>State := s, FailureTime := Some t\<rparr>, (w', tr)))"
    by (simp add: setOrderState_def Let_def split: prod.splits)
next
  assume "State (Status ord) = Failed a \<and> IsFailureState a (Failed a) \<and> URL (Status ord) \<noteq> []
      \<and> GetOrder env cl (URL (Status ord)) w = (Inr ao1, w1) \<and> order_Status ao1 = Failed a
      \<and> order_URL ao1 \<noteq> [] \<and> Now env w1 = (t1, w2)
      \<and> GetOrder env cl (order_URL ao1) w2 = (Inr ao2, w3) \<and> order_Status ao2 = Failed a
      \<and> Now env w3 = (t2, w4)"
  then show "\<exists>ord1 tr1 ord2 tr2.
         syncOrderStatus a env cl ord (w, tr) = (None, ord1, (w2, tr1))
         \<and> State (Status ord1) = Failed a \<and> FailureTime (Status ord1) = Some t1
         \<and> syncOrderStatus a env cl ord1 (w2, tr1) = (None, ord2, (w4, tr2))
         \<and> State (Status ord2) = Failed a \<and> FailureTime (Status ord2) = Some t2"
    by (simp add: setOrderState_def syncOrderStatus_def setOrderStatus_def perform_def Let_def)
next
  assume h: "URL (Status ord) \<noteq> []
      \<and> (IsFinalState a (State (Status ord))
          \<or> (State (Status ord) \<noteq> Unknown a \<and> State (Status ord) \<noteq> Ready a
             \<and> State (Status ord) \<noteq> Pending a \<and> State (Status ord) \<noteq> Processing a))"
  then have one: "\<And>st. fst (snd (Sync a env ord st)) = ord"
    by (intro Sync_leaves_undispatched) simp_all
  from one show "fst (snd (Sync a env ord (w, tr))) = ord" .
  obtain e1 ord1 st1 where s1: "Sync a env ord (w, tr) = (e1, ord1, st1)"
    by (cases "Sync a env ord (w, tr)") auto
  with one [of "(w, tr)"] have "ord1 = ord" by simp
  with s1 one [of st1] show "fst (snd (Sync_twice a env ord (w, tr))) = ord"
    by (simp add: Sync_twice_def)
qed

text \<open>A failed order with the failure time 2, the clock at 5. \<^verbatim>\<open>setOrderState\<close> with the
  failed state puts 5; two status synchronisations in a row leave the readings 6 and
  then 8; one and two runs of \<^verbatim>\<open>Sync\<close> leave the order as it was.\<close>

theorem setOrderState_failure_time_overwritten_witness:
  "IsFailureState ex_api ''failed''
   \<and> fst (setOrderState ex_api ex_env (Status ex_failed) ''failed'' (5, []))
       = (ex_status ''o/1'' ''failed'')\<lparr>FailureTime := Some 5\<rparr>
   \<and> (\<exists>ord1 tr1 ord2 tr2.
         syncOrderStatus ex_api ex_env ''cl'' ex_failed (5, []) = (None, ord1, (7, tr1))
         \<and> State (Status ord1) = ''failed'' \<and> FailureTime (Status ord1) = Some 6
         \<and> syncOrderStatus ex_api ex_env ''cl'' ord1 (7, tr1) = (None, ord2, (9, tr2))
         \<and> State (Status ord2) = ''failed'' \<and> FailureTime (Status ord2) = Some 8)
   \<and> fst (snd (Sync ex_api ex_env ex_failed (5, []))) = ex_failed
   \<and> fst (snd (Sync_twice ex_api ex_env ex_failed (5, []))) = ex_failed"
  using setOrderState_failure_time_overwritten [where a = ex_api and s = "''failed''" and env = ex_env and o_st = "Status ex_failed"
      and w = 5 and tr = "[]" and ord = ex_failed and cl = "''cl''"
      and ?ao1.0 = "ex_acme_order ''failed''" and ?w1.0 = 6 and ?t1.0 = 6 and ?w2.0 = 7
      and ?ao2.0 = "ex_acme_order ''failed''" and ?w3.0 = 8 and ?t2.0 = 8 and ?w4.0 = 9]
  by (simp add: ex_defs ex_failed_def)

text \<open>C4 as the claim states it, for reconciliations: a failed order with the failure
  time 2 is reconciled twice with the clock at 5 and later, and the failure time is 2
  after the first run and after the second.\<close>

theorem Sync_failed_twice_counterexample:
  "State (Status ex_failed) = Failed ex_api
   \<and> IsFailureState ex_api (State (Status ex_failed))
   \<and> FailureTime (Status ex_failed) = Some 2
   \<and> fst (Now ex_env 5) = 5
   \<and> FailureTime (Status (fst (snd (Sync ex_api ex_env ex_failed (5, []))))) = Some 2
   \<and> FailureTime (Status (fst (snd (Sync_twice ex_api ex_env ex_failed (5, []))))) = Some 2"
  by (simp add: ex_defs ex_failed_def Sync_twice_def Sync_def Sync_body_def perform_def)

text \<open>
  C9. \<^verbatim>\<open>setOrderState\<close> with a state that is not classed as a failure state changes the
  state only: the failure time is what it was (and the clock is not read). With any
  state, a failure time that was set stays set.
\<close>

theorem setOrderState_keeps_failure_time:
  "(\<not> IsFailureState a s \<longrightarrow>
      setOrderState a env o_st s st = (o_st\<lparr>State := s\<rparr>, st)
      \<and> FailureTime (fst (setOrderState a env o_st s st)) = FailureTime o_st)
   \<and> (FailureTime o_st \<noteq> None \<longrightarrow> FailureTime (fst (setOrderState a env o_st s st)) \<noteq> None)"
  by (auto simp: setOrderState_def Let_def split: prod.splits)

theorem setOrderState_keeps_failure_time_witness:
  "\<not> IsFailureState ex_api ''pending''
   \<and> State ((ex_status ''o/1'' ''failed'')\<lparr>FailureTime := Some 2\<rparr>) = ''failed''
   \<and> setOrderState ex_api ex_env ((ex_status ''o/1'' ''failed'')\<lparr>FailureTime := Some 2\<rparr>) ''pending'' (7, [])
       = ((ex_status ''o/1'' ''pending'')\<lparr>FailureTime := Some 2\<rparr>, (7, []))"
  using setOrderState_keeps_failure_time [of ex_api "''pending''" ex_env "(ex_status ''o/1'' ''failed'')\<lparr>FailureTime := Some 2\<rparr>" "(7, [])"]
  by (simp add: ex_defs)

subsection \<open>createOrder after the remote order is created\<close>

lemma setOrderStatus_fields:
  "setOrderStatus a env o_st acmeOrder st = (o1, st1) \<Longrightarrow>
     Challenges o1 = Challenges o_st \<and> URL o1 = order_URL acmeOrder
     \<and> FinalizeURL o1 = order_FinalizeURL acmeOrder
     \<and> CertificateURL o1 = order_CertificateURL acmeOrder
     \<and> State o1 = order_Status acmeOrder \<and> snd st1 = snd st"
  by (auto simp: setOrderStatus_def setOrderState_def Let_def split: prod.splits if_splits)

text \<open>The loop fails at the authorization of index \<open>k\<close> when the fetch and the build
  succeed for every authorization before it, each from the world the one before left,
  and the fetch or the build fails at \<open>k\<close>.\<close>

lemma authz_loop_Cons:
  "authz_loop env cl issuer ord (u # rest) st =
     (case fetch_and_build env cl issuer ord u st of
        (Inl err, st1) \<Rightarrow> (Inl err, st1)
      | (Inr cs, st1) \<Rightarrow>
         (case authz_loop env cl issuer ord rest st1 of
            (Inl err, st3) \<Rightarrow> (Inl err, st3)
          | (Inr css, st3) \<Rightarrow> (Inr (cs # css), st3)))"
  by (simp add: fetch_and_build_def split: prod.splits sum.splits)

lemma authz_loop_fails_at:
  assumes "k < length urls" and "length sts = Suc k" and "sts ! 0 = st"
    and "\<forall>j<k. \<exists>cs. fetch_and_build env cl issuer ord (urls ! j) (sts ! j) = (Inr cs, sts ! Suc j)"
    and "fetch_and_build env cl issuer ord (urls ! k) (sts ! k) = (Inl err, st')"
  shows "authz_loop env cl issuer ord urls st = (Inl err, st')"
  using assms
proof (induction k arbitrary: urls sts st)
  case 0
  then obtain u rest where "urls = u # rest" by (cases urls) auto
  with 0 show ?case by (simp add: authz_loop_Cons del: authz_loop.simps)
next
  case (Suc k)
  from Suc.prems(1) obtain u rest where urls: "urls = u # rest" by (cases urls) auto
  from Suc.prems(2) obtain s0 sts' where sts: "sts = s0 # sts'" by (cases sts) auto
  from Suc.prems(3) sts have s0: "s0 = st" by simp
  from Suc.prems(4) have "\<exists>cs. fetch_and_build env cl issuer ord (urls ! 0) (sts ! 0) = (Inr cs, sts ! Suc 0)"
    by blast
  then obtain cs where step: "fetch_and_build env cl issuer ord u st = (Inr cs, sts' ! 0)"
    using urls sts s0 by auto
  have "authz_loop env cl issuer ord rest (sts' ! 0) = (Inl err, st')"
  proof (rule Suc.IH)
    show "k < length rest" using Suc.prems(1) urls by simp
    show "length sts' = Suc k" using Suc.prems(2) sts by simp
    show "sts' ! 0 = sts' ! 0" ..
    show "\<forall>j<k. \<exists>cs. fetch_and_build env cl issuer ord (rest ! j) (sts' ! j) = (Inr cs, sts' ! Suc j)"
    proof (intro allI impI)
      fix j assume "j < k"
      then have "Suc j < Suc k" by simp
      with Suc.prems(4) have "\<exists>cs. fetch_and_build env cl issuer ord (urls ! Suc j) (sts ! Suc j) = (Inr cs, sts ! Suc (Suc j))"
        by blast
      then show "\<exists>cs. fetch_and_build env cl issuer ord (rest ! j) (sts' ! j) = (Inr cs, sts' ! Suc j)"
        using urls sts by simp
    qed
    show "fetch_and_build env cl issuer ord (rest ! k) (sts' ! k) = (Inl err, st')"
      using Suc.prems(5) urls sts by simp
  qed
  with step urls show ?case by (simp add: authz_loop_Cons del: authz_loop.simps)
qed

lemma fetch_and_build_error_kind:
  "fetch_and_build env cl issuer ord u st = (Inl err, st') \<Longrightarrow>
     (\<exists>e. err = External e \<and> fst (GetAuthorization env cl u (fst st)) = Inl e)
     \<or> (\<exists>e authz w1. err = ErrConstructingChallenge e
          \<and> GetAuthorization env cl u (fst st) = (Inr authz, w1)
          \<and> challengeSpecForAuthorization env cl issuer ord authz (w1, snd st @ [CallGetAuthorization cl u]) = (Inl e, st'))"
  by (auto simp: fetch_and_build_def perform_def split: prod.splits sum.splits)

text \<open>
  C8. An order with an empty status URL; the remote creation succeeds and the status is
  projected from the ACME order. For the authorizations before the one of index \<open>k\<close> the
  fetch and the spec build succeed (\<open>sts\<close> lists the worlds in between), and at index \<open>k\<close>
  the fetch fails (the client's error) or the spec build fails (the wrapped error).
  Then \<^verbatim>\<open>createOrder\<close> returns that error; the order keeps the projected status, with the
  URL, the finalize URL, the certificate URL and the state of the ACME order; and its
  planned challenges are those it had before the call, so unset when they were unset:
  no spec built before index \<open>k\<close> is kept.
\<close>

theorem createOrder_partial_failure:
  assumes "URL (Status ord) = []"
    and "CreateOrder env cl (identifierSet_List (Spec ord)) w = (Inr acmeOrder, w1)"
    and "setOrderStatus a env (Status ord) acmeOrder
           (w1, tr @ [CallCreateOrder cl (identifierSet_List (Spec ord))]) = (o1, st2)"
    and "k < length (order_Authorizations acmeOrder)"
    and "length sts = Suc k" and "sts ! 0 = st2"
    and "\<forall>j<k. \<exists>cs. fetch_and_build env cl issuer (ord\<lparr>Status := o1\<rparr>)
                      (order_Authorizations acmeOrder ! j) (sts ! j) = (Inr cs, sts ! Suc j)"
    and "fetch_and_build env cl issuer (ord\<lparr>Status := o1\<rparr>)
           (order_Authorizations acmeOrder ! k) (sts ! k) = (Inl err, st3)"
  shows "createOrder a env cl issuer ord (w, tr) = (Some err, ord\<lparr>Status := o1\<rparr>, st3)
       \<and> Challenges o1 = Challenges (Status ord)
       \<and> (Challenges (Status ord) = None \<longrightarrow> Challenges o1 = None)
       \<and> URL o1 = order_URL acmeOrder
       \<and> FinalizeURL o1 = order_FinalizeURL acmeOrder
       \<and> CertificateURL o1 = order_CertificateURL acmeOrder
       \<and> State o1 = order_Status acmeOrder
       \<and> ((\<exists>e. err = External e) \<or> (\<exists>e. err = ErrConstructingChallenge e))"
proof -
  have loop: "authz_loop env cl issuer (ord\<lparr>Status := o1\<rparr>) (order_Authorizations acmeOrder) st2
                = (Inl err, st3)"
    using assms(4-8) by (rule authz_loop_fails_at)
  from fetch_and_build_error_kind [OF assms(8)]
  have kind: "(\<exists>e. err = External e) \<or> (\<exists>e. err = ErrConstructingChallenge e)" by blast
  from assms(1-3) loop setOrderStatus_fields [OF assms(3)] kind show ?thesis
    by (simp add: createOrder_def perform_def Let_def)
qed

text \<open>The order is created remotely with two authorizations; the first is fetched and
  its spec built, the fetch of the second times out: the error is returned, the URL is
  set, and the planned challenges are still \<^verbatim>\<open>nil\<close>.\<close>

theorem createOrder_partial_failure_witness:
  "URL (Status (ex_order [] [])) = []
   \<and> order_Authorizations ex_acme_order2 = [''z/1'', ''z/2'']
   \<and> fst (fetch_and_build ex_env_second_fetch_fails ''cl'' ex_issuer
             ((ex_order [] [])\<lparr>Status := (ex_status ''o/1'' ''pending'')\<lparr>FinalizeURL := ''o/1/f''\<rparr>\<rparr>)
             ''z/1'' (3, [CallCreateOrder ''cl'' [''a.com'']]))
        = Inr (ex_chalspec ''a.com'')
   \<and> fst (fetch_and_build ex_env_second_fetch_fails ''cl'' ex_issuer
             ((ex_order [] [])\<lparr>Status := (ex_status ''o/1'' ''pending'')\<lparr>FinalizeURL := ''o/1/f''\<rparr>\<rparr>)
             ''z/2'' (4, [CallCreateOrder ''cl'' [''a.com''], CallGetAuthorization ''cl'' ''z/1'',
                          CallHTTP01ChallengeResponse ''cl'' ''t2'']))
        = Inl (External ''timeout'')
   \<and> createOrder ex_api ex_env_second_fetch_fails ''cl'' ex_issuer (ex_order [] []) (2, [])
        = (Some (External ''timeout''),
           (ex_order [] [])\<lparr>Status := (ex_status ''o/1'' ''pending'')\<lparr>FinalizeURL := ''o/1/f''\<rparr>\<rparr>,
           (5, [CallCreateOrder ''cl'' [''a.com''], CallGetAuthorization ''cl'' ''z/1'',
                CallHTTP01ChallengeResponse ''cl'' ''t2'', CallGetAuthorization ''cl'' ''z/2'']))
   \<and> Challenges (ex_status ''o/1'' ''pending'') = None"
  using
    createOrder_partial_failure [where a = ex_api and env = ex_env_second_fetch_fails and ord = "ex_order [] []"
        and cl = "''cl''" and issuer = ex_issuer and w = 2 and tr = "[]"
        and acmeOrder = ex_acme_order2 and ?w1.0 = 3
        and ?o1.0 = "(ex_status ''o/1'' ''pending'')\<lparr>FinalizeURL := ''o/1/f''\<rparr>"
        and ?st2.0 = "(3, [CallCreateOrder ''cl'' [''a.com'']])" and k = 1
        and sts = "[(3, [CallCreateOrder ''cl'' [''a.com'']]),
                    (4, [CallCreateOrder ''cl'' [''a.com''], CallGetAuthorization ''cl'' ''z/1'',
                         CallHTTP01ChallengeResponse ''cl'' ''t2''])]"
        and err = "External ''timeout''"
        and ?st3.0 = "(5, [CallCreateOrder ''cl'' [''a.com''], CallGetAuthorization ''cl'' ''z/1'',
                CallHTTP01ChallengeResponse ''cl'' ''t2'', CallGetAuthorization ''cl'' ''z/2''])"]
  by (simp add: ex_defs ex_acme_order2_def ex_env_second_fetch_fails_def ex_chalspec_def
      identifierSet_List_def setOrderStatus_def setOrderState_def fetch_and_build_def
      challengeSpecForAuthorization_def solverConfigurationForAuthorization_def domainToFind_of_def
      keyForChallenge_def perform_def Let_def)

subsection \<open>Sync on an order in a final state\<close>

text \<open>
  C5, as the code has it. For an order with a status URL and a state classed as final,
  \<^verbatim>\<open>Sync\<close> looks up the issuer and builds the ACME client for it, and makes no other
  call: no call of the ACME client, no listing or creation of Challenges, no update of
  the order. It returns the error of the lookup that failed, and no error when both
  succeed; the order is unchanged in every case.
\<close>

theorem Sync_final_state_lookups_only:
  assumes "URL (Status ord) \<noteq> []" and "IsFinalState a (State (Status ord))"
  shows "Sync a env ord (w, tr) =
    (case GetGenericIssuer env (IssuerRef (Spec ord)) (Namespace ord) w of
       (Inl err, w1) \<Rightarrow>
         (Some (ErrReadingIssuer (ref_Name (IssuerRef (Spec ord))) err), ord,
          (w1, tr @ [CallGetGenericIssuer (IssuerRef (Spec ord)) (Namespace ord)]))
     | (Inr genericIssuer, w1) \<Rightarrow>
         (case ClientForIssuer env genericIssuer w1 of
            (Inl err, w2) \<Rightarrow>
              (Some (External err), ord,
               (w2, tr @ [CallGetGenericIssuer (IssuerRef (Spec ord)) (Namespace ord),
                          CallClientForIssuer genericIssuer]))
          | (Inr cl, w2) \<Rightarrow>
              (None, ord,
               (w2, tr @ [CallGetGenericIssuer (IssuerRef (Spec ord)) (Namespace ord),
                          CallClientForIssuer genericIssuer]))))"
  using assms
  by (auto simp: Sync_def Sync_body_def perform_def split: prod.splits sum.splits)

theorem Sync_final_state_lookups_only_witness:
  "URL (Status (ex_order ''o/1'' ''valid'')) \<noteq> []
   \<and> IsFinalState ex_api (State (Status (ex_order ''o/1'' ''valid'')))
   \<and> Sync ex_api ex_env (ex_order ''o/1'' ''valid'') (0, [])
       = (None, ex_order ''o/1'' ''valid'',
          (2, [CallGetGenericIssuer \<lparr>ref_Name = ''le'', ref_Kind = ''Issuer''\<rparr> ''ns'',
               CallClientForIssuer ex_issuer]))"
  using Sync_final_state_lookups_only [of "ex_order ''o/1'' ''valid''" ex_api ex_env 0 "[]"]
  by (simp add: ex_defs)

text \<open>C5 as the claim states it fails where the issuer cannot be read: one call is made,
  and an error is returned.\<close>

theorem Sync_final_state_counterexample:
  "URL (Status (ex_order ''o/1'' ''valid'')) \<noteq> []
   \<and> IsFinalState ex_api (State (Status (ex_order ''o/1'' ''valid'')))
   \<and> Sync ex_api ex_env_no_issuer (ex_order ''o/1'' ''valid'') (0, [])
       = (Some (ErrReadingIssuer ''le'' ''no issuer''), ex_order ''o/1'' ''valid'',
          (1, [CallGetGenericIssuer \<lparr>ref_Name = ''le'', ref_Kind = ''Issuer''\<rparr> ''ns'']))"
  by (simp add: ex_defs ex_env_no_issuer_def Sync_def Sync_body_def perform_def)

subsection \<open>The deferred update of the status\<close>

text \<open>What the deferred function does with the result of \<^verbatim>\<open>Update\<close>, for any order and
  any collaborators: when the body returned an error, the two are aggregated (a \<^verbatim>\<open>nil\<close>
  from \<^verbatim>\<open>Update\<close> is dropped by \<^verbatim>\<open>NewAggregate\<close>); when the body returned \<^verbatim>\<open>nil\<close>, the
  result of \<^verbatim>\<open>Update\<close> is not looked at.\<close>

lemma Sync_deferred_with_error:
  assumes "Sync_body a env ord st = (Some e, ord', (w1, tr1))"
    and "Status ord \<noteq> Status ord'"
    and "UpdateOrder env (Namespace ord') ord' w1 = (Some u, w2)"
  shows "fst (Sync a env ord st) = Some (Aggregate [e, External u])"
  using assms
  by (simp add: Sync_def perform_def NewAggregate_def List.map_filter_simps)

lemma Sync_deferred_without_error:
  assumes "Sync_body a env ord st = (None, ord', (w1, tr1))"
  shows "fst (Sync a env ord st) = None"
  using assms
  by (simp add: Sync_def perform_def split: prod.splits)

text \<open>
  C6. A new order: \<^verbatim>\<open>createOrder\<close> succeeds, so the body returns \<^verbatim>\<open>nil\<close> and the status
  has changed; the deferred function calls \<^verbatim>\<open>Update\<close>, which fails with a conflict.
  The test \<^verbatim>\<open>err != nil\<close> guards the aggregation, so the conflict is dropped and
  \<^verbatim>\<open>Sync\<close> returns \<^verbatim>\<open>nil\<close>.
\<close>

theorem Sync_update_error_dropped:
  "fst (Sync_body ex_api ex_env_update_fails (ex_order [] []) (0, [])) = None
   \<and> Status (fst (snd (Sync ex_api ex_env_update_fails (ex_order [] []) (0, [])))) \<noteq> Status (ex_order [] [])
   \<and> last (Sync_trace ex_api ex_env_update_fails (ex_order [] []) (0, []))
        = CallUpdateOrder ''ns'' (fst (snd (Sync ex_api ex_env_update_fails (ex_order [] []) (0, []))))
   \<and> fst (UpdateOrder ex_env_update_fails ''ns''
            (fst (snd (Sync ex_api ex_env_update_fails (ex_order [] []) (0, [])))) 4) = Some ''conflict''
   \<and> fst (Sync ex_api ex_env_update_fails (ex_order [] []) (0, [])) = None"
  by (simp add: ex_defs ex_env_update_fails_def Sync_trace_def Sync_def Sync_body_def createOrder_def
      identifierSet_List_def setOrderStatus_def setOrderState_def
      challengeSpecForAuthorization_def solverConfigurationForAuthorization_def domainToFind_of_def
      keyForChallenge_def perform_def Let_def)

subsection \<open>Sync on an order that is ready\<close>

lemma setOrderStatus_trace:
  "setOrderStatus a env o_st acmeOrder st = (o1, st1) \<Longrightarrow> snd st1 = snd st"
  by (auto simp: setOrderStatus_def setOrderState_def Let_def split: prod.splits if_splits)

lemma syncOrderStatus_trace:
  "syncOrderStatus a env cl ord st = (r, ord', st') \<Longrightarrow>
     snd st' = snd st \<or> snd st' = snd st @ [CallGetOrder cl (URL (Status ord))]"
  by (auto simp: syncOrderStatus_def perform_def dest: setOrderStatus_trace
      split: if_splits prod.splits sum.splits)

lemma Sync_body_Ready:
  assumes "GetGenericIssuer env (IssuerRef (Spec ord)) (Namespace ord) w = (Inr gi, w1)"
    and "ClientForIssuer env gi w1 = (Inr cl, w2)"
    and "URL (Status ord) \<noteq> []"
    and "\<not> IsFinalState a (State (Status ord))"
    and "State (Status ord) = Ready a"
    and "Ready a \<noteq> Unknown a"
    and "FinalizeOrder env cl (FinalizeURL (Status ord)) (CSR (Spec ord)) w2 = (ferr, w3)"
    and "GetOrder env cl (URL (Status ord)) w3 = (gres, w4)"
  shows "Sync_body a env ord (w, tr) =
    (let tr4 = tr @ [CallGetGenericIssuer (IssuerRef (Spec ord)) (Namespace ord),
                     CallClientForIssuer gi,
                     CallFinalizeOrder cl (FinalizeURL (Status ord)) (CSR (Spec ord)),
                     CallGetOrder cl (URL (Status ord))]
     in case gres of
          Inl e \<Rightarrow> (Some (ErrSyncingOrderStatus (External e)), ord, (w4, tr4))
        | Inr acmeOrder \<Rightarrow>
            (case setOrderStatus a env (Status ord) acmeOrder (w4, tr4) of
               (o1, st5) \<Rightarrow>
                 (case ferr of
                    Some e \<Rightarrow> (Some (ErrFinalizingOrder e), ord\<lparr>Status := o1\<rparr>, st5)
                  | None \<Rightarrow> (None, ord\<lparr>Status := o1\<rparr>, st5))))"
  using assms
  by (simp add: Sync_body_def syncOrderStatus_def perform_def Let_def
      split: prod.splits sum.splits option.splits)

text \<open>
  C3. An order with a status URL whose state is \<^verbatim>\<open>Ready\<close> (and not classed as final),
  issuer and client found. \<^verbatim>\<open>Sync\<close> calls \<^verbatim>\<open>FinalizeOrder\<close> and then \<^verbatim>\<open>GetOrder\<close>, whatever
  the finalize call returned. When \<^verbatim>\<open>GetOrder\<close> fails, the result is the status-sync
  error, also when finalize failed. Otherwise the result is \<^verbatim>\<open>nil\<close> when finalize
  succeeded, and the finalize error when it failed: alone, or in the aggregate that the
  deferred update builds when the status changed (with the update's error behind it if
  the update failed too).
\<close>

theorem Sync_ready_finalize_then_status:
  assumes "GetGenericIssuer env (IssuerRef (Spec ord)) (Namespace ord) w = (Inr gi, w1)"
    and "ClientForIssuer env gi w1 = (Inr cl, w2)"
    and "URL (Status ord) \<noteq> []"
    and "\<not> IsFinalState a (State (Status ord))"
    and "State (Status ord) = Ready a"
    and "Ready a \<noteq> Unknown a"
    and "FinalizeOrder env cl (FinalizeURL (Status ord)) (CSR (Spec ord)) w2 = (ferr, w3)"
    and "GetOrder env cl (URL (Status ord)) w3 = (gres, w4)"
  shows "(\<exists>rest. Sync_trace a env ord (w, tr) =
            tr @ [CallGetGenericIssuer (IssuerRef (Spec ord)) (Namespace ord),
                  CallClientForIssuer gi,
                  CallFinalizeOrder cl (FinalizeURL (Status ord)) (CSR (Spec ord)),
                  CallGetOrder cl (URL (Status ord))] @ rest)
       \<and> (case gres of
            Inl e \<Rightarrow> fst (Sync a env ord (w, tr)) = Some (ErrSyncingOrderStatus (External e))
          | Inr acmeOrder \<Rightarrow>
              (case ferr of
                 None \<Rightarrow> fst (Sync a env ord (w, tr)) = None
               | Some e \<Rightarrow>
                   fst (Sync a env ord (w, tr)) = Some (ErrFinalizingOrder e)
                   \<or> fst (Sync a env ord (w, tr)) = Some (Aggregate [ErrFinalizingOrder e])
                   \<or> (\<exists>u. fst (Sync a env ord (w, tr))
                            = Some (Aggregate [ErrFinalizingOrder e, External u]))))"
proof (cases gres)
  case (Inl e)
  with Sync_body_Ready [OF assms, of tr] show ?thesis
    by (simp add: Sync_def Sync_trace_def)
next
  case (Inr acmeOrder)
  obtain o1 st5 where sos:
    "setOrderStatus a env (Status ord) acmeOrder
       (w4, tr @ [CallGetGenericIssuer (IssuerRef (Spec ord)) (Namespace ord),
                  CallClientForIssuer gi,
                  CallFinalizeOrder cl (FinalizeURL (Status ord)) (CSR (Spec ord)),
                  CallGetOrder cl (URL (Status ord))]) = (o1, st5)"
    by (cases "setOrderStatus a env (Status ord) acmeOrder
       (w4, tr @ [CallGetGenericIssuer (IssuerRef (Spec ord)) (Namespace ord),
                  CallClientForIssuer gi,
                  CallFinalizeOrder cl (FinalizeURL (Status ord)) (CSR (Spec ord)),
                  CallGetOrder cl (URL (Status ord))])") auto
  from setOrderStatus_trace [OF sos]
  have tr5: "snd st5 = tr @ [CallGetGenericIssuer (IssuerRef (Spec ord)) (Namespace ord),
                  CallClientForIssuer gi,
                  CallFinalizeOrder cl (FinalizeURL (Status ord)) (CSR (Spec ord)),
                  CallGetOrder cl (URL (Status ord))]"
    by simp
  from Sync_body_Ready [OF assms, of tr] Inr sos
  have body: "Sync_body a env ord (w, tr) =
      (case ferr of
         Some e \<Rightarrow> (Some (ErrFinalizingOrder e), ord\<lparr>Status := o1\<rparr>, st5)
       | None \<Rightarrow> (None, ord\<lparr>Status := o1\<rparr>, st5))"
    by simp
  show ?thesis
    using Inr body tr5
    by (cases ferr)
       (auto simp: Sync_def Sync_trace_def perform_def NewAggregate_def List.map_filter_simps
          split: prod.splits option.splits)
qed

text \<open>Finalize and status sync both fail: the status-sync error. Finalize fails and the
  status sync succeeds: the finalize error, aggregated by the deferred update. Both
  succeed: no error.\<close>

theorem Sync_ready_finalize_then_status_witness:
  "State (Status (ex_order ''o/1'' ''ready'')) = Ready ex_api
   \<and> \<not> IsFinalState ex_api (State (Status (ex_order ''o/1'' ''ready'')))
   \<and> fst (Sync ex_api ex_env_both_fail (ex_order ''o/1'' ''ready'') (0, []))
       = Some (ErrSyncingOrderStatus (External ''timeout''))
   \<and> fst (Sync ex_api ex_env_finalize_fails (ex_order ''o/1'' ''ready'') (0, []))
       = Some (Aggregate [ErrFinalizingOrder ''bad csr''])
   \<and> fst (Sync ex_api ex_env (ex_order ''o/1'' ''ready'') (0, [])) = None"
  using
    Sync_ready_finalize_then_status [where a = ex_api and env = ex_env_both_fail and ord = "ex_order ''o/1'' ''ready''"
        and w = 0 and tr = "[]" and gi = ex_issuer and ?w1.0 = 1 and cl = "''cl''" and ?w2.0 = 2
        and ferr = "Some ''bad csr''" and ?w3.0 = 3 and gres = "Inl ''timeout''" and ?w4.0 = 4]
    Sync_ready_finalize_then_status [where a = ex_api and env = ex_env_finalize_fails and ord = "ex_order ''o/1'' ''ready''"
        and w = 0 and tr = "[]" and gi = ex_issuer and ?w1.0 = 1 and cl = "''cl''" and ?w2.0 = 2
        and ferr = "Some ''bad csr''" and ?w3.0 = 3 and gres = "Inr (ex_acme_order ''failed'')" and ?w4.0 = 4]
    Sync_ready_finalize_then_status [where a = ex_api and env = ex_env and ord = "ex_order ''o/1'' ''ready''"
        and w = 0 and tr = "[]" and gi = ex_issuer and ?w1.0 = 1 and cl = "''cl''" and ?w2.0 = 2
        and ferr = None and ?w3.0 = 3 and gres = "Inr (ex_acme_order ''failed'')" and ?w4.0 = 4]
  by (simp add: ex_defs ex_env_finalize_fails_def ex_env_both_fail_def Sync_def Sync_body_def
      syncOrderStatus_def setOrderStatus_def
      setOrderState_def perform_def NewAggregate_def List.map_filter_simps Let_def)

subsection \<open>The Challenges that Sync creates\<close>

lemma create_flag_iff: "create_flag s ex = (\<not> has_existing ex s)"
  by (induction ex) (auto simp: has_existing_def)

lemma zip_upt_Cons: "zip [i..<Suc (i + k)] (x # xs) = (i, x) # zip [Suc i..<Suc (i + k)] xs"
  by (subst upt_rec) simp

lemma specs_loop_eq:
  "specs_loop ex i ss =
     zip [i..<i + length (takeWhile (\<lambda>s. \<not> has_existing ex s) ss)]
         (takeWhile (\<lambda>s. \<not> has_existing ex s) ss)"
  by (induction ss arbitrary: i) (simp_all add: create_flag_iff zip_upt_Cons del: upt_Suc)

lemma zip_upt_take: "k \<le> length xs \<Longrightarrow> zip [0..<k] (take k xs) = map (\<lambda>i. (i, xs ! i)) [0..<k]"
  by (rule nth_equalityI) auto

lemma first_existing_le: "first_existing ex ps \<le> length ps"
  by (simp add: first_existing_def length_takeWhile_le)

lemma specsToCreate_eq:
  "specsToCreate ord ex = map (\<lambda>i. (i, planned ord ! i)) [0..<first_existing ex (planned ord)]"
proof -
  let ?P = "\<lambda>s. \<not> has_existing ex s"
  let ?k = "first_existing ex (planned ord)"
  have "specsToCreate ord ex = zip [0..<?k] (takeWhile ?P (planned ord))"
    by (simp add: specsToCreate_def specs_loop_eq first_existing_def)
  also have "takeWhile ?P (planned ord) = take ?k (planned ord)"
    unfolding first_existing_def by (rule takeWhile_eq_take)
  finally show ?thesis
    by (simp add: zip_upt_take first_existing_le)
qed

lemma first_existing_stop:
  "first_existing ex ps < length ps \<Longrightarrow> has_existing ex (ps ! first_existing ex ps)"
  unfolding first_existing_def by (drule nth_length_takeWhile) simp

lemma first_existing_before:
  "j < first_existing ex ps \<Longrightarrow> \<not> has_existing ex (ps ! j)"
proof -
  assume j: "j < first_existing ex ps"
  let ?tw = "takeWhile (\<lambda>s. \<not> has_existing ex s) ps"
  from j have "?tw ! j \<in> set ?tw" by (simp add: first_existing_def)
  then have "\<not> has_existing ex (?tw ! j)" by (rule set_takeWhileD [THEN conjunct2])
  moreover from j have "?tw ! j = ps ! j" by (simp add: first_existing_def takeWhile_nth)
  ultimately show ?thesis by simp
qed

lemma create_loop_trace:
  "create_loop env ord specs ex errs st = (errs', ex', st') \<Longrightarrow>
     snd st' = snd st @ create_calls ord specs"
  by (induction specs arbitrary: ex errs st)
     (auto simp: perform_def Let_def create_calls_def split: prod.splits sum.splits)

lemma Sync_challenges_trace:
  assumes "challengeSelectorForOrder a ord = Inr sel"
    and "ListChallenges env (Namespace ord) sel w = (Inr existing, w1)"
  shows "\<exists>rest. snd (snd (snd (Sync_challenges a env cl ord (w, tr)))) =
           tr @ [CallListChallenges (Namespace ord) sel]
              @ create_calls ord (map_range a (specsToCreate ord existing)) @ rest
         \<and> (rest = [] \<or> rest = [CallGetOrder cl (URL (Status ord))])"
proof -
  let ?st1 = "(w1, tr @ [CallListChallenges (Namespace ord) sel])"
  obtain errs ex' st2 where cl:
    "create_loop env ord (map_range a (specsToCreate ord existing)) existing [] ?st1 = (errs, ex', st2)"
    by (cases "create_loop env ord (map_range a (specsToCreate ord existing)) existing [] ?st1") auto
  from create_loop_trace [OF cl]
  have tr2: "snd st2 = tr @ [CallListChallenges (Namespace ord) sel]
                @ create_calls ord (map_range a (specsToCreate ord existing))"
    by simp
  obtain r ord' st3 where so: "syncOrderStatus a env cl ord st2 = (r, ord', st3)"
    by (cases "syncOrderStatus a env cl ord st2") auto
  from syncOrderStatus_trace [OF so] tr2
  have "snd st3 = snd st2 @ [] \<or> snd st3 = snd st2 @ [CallGetOrder cl (URL (Status ord))]"
    by simp
  with assms cl tr2 so show ?thesis
    by (auto simp: Sync_challenges_def perform_def split: option.splits prod.splits)
qed

lemma Sync_body_Pending:
  assumes "State (Status ord) = Pending a \<or> State (Status ord) = Processing a"
    and "State (Status ord) \<noteq> Unknown a"
    and "State (Status ord) \<noteq> Ready a"
    and "\<not> IsFinalState a (State (Status ord))"
    and "URL (Status ord) \<noteq> []"
    and "GetGenericIssuer env (IssuerRef (Spec ord)) (Namespace ord) w = (Inr gi, w1)"
    and "ClientForIssuer env gi w1 = (Inr cl, w2)"
  shows "Sync_body a env ord (w, tr) =
           Sync_challenges a env cl ord
             (w2, tr @ [CallGetGenericIssuer (IssuerRef (Spec ord)) (Namespace ord),
                        CallClientForIssuer gi])"
  using assms by (auto simp: Sync_body_def perform_def)

lemma Sync_trace_body:
  "\<exists>upd. Sync_trace a env ord st = snd (snd (snd (Sync_body a env ord st))) @ upd
         \<and> filter is_create upd = []"
  by (auto simp: Sync_trace_def Sync_def perform_def split: prod.splits)


text \<open>
  C2. Let \<open>k\<close> be the index of the first planned entry for which a listed Challenge has
  the same DNS name (the number of planned entries when there is none): no entry before
  \<open>k\<close> has an existing Challenge and, when \<open>k\<close> is an index of the list, entry \<open>k\<close> has
  one. The selection is the planned entries at the indices below \<open>k\<close>, each under its
  index, and nothing at \<open>k\<close> or after it. For an order that is pending or processing
  (with a status URL, not classed as final, issuer and client found, the Challenges
  listed), \<^verbatim>\<open>Sync\<close> calls \<^verbatim>\<open>Create\<close> for the Challenges built from exactly this selection,
  in the order in which the map is ranged over, and for no other Challenge.
\<close>

theorem Sync_creates_until_first_existing:
  "first_existing ex (planned ord) \<le> length (planned ord)
   \<and> (first_existing ex (planned ord) < length (planned ord) \<longrightarrow>
        has_existing ex (planned ord ! first_existing ex (planned ord)))
   \<and> (\<forall>j. j < first_existing ex (planned ord) \<longrightarrow> \<not> has_existing ex (planned ord ! j))
   \<and> specsToCreate ord ex = map (\<lambda>i. (i, planned ord ! i)) [0..<first_existing ex (planned ord)]
   \<and> ((State (Status ord) = Pending a \<or> State (Status ord) = Processing a)
       \<and> State (Status ord) \<noteq> Unknown a \<and> State (Status ord) \<noteq> Ready a
       \<and> \<not> IsFinalState a (State (Status ord)) \<and> URL (Status ord) \<noteq> []
       \<and> GetGenericIssuer env (IssuerRef (Spec ord)) (Namespace ord) w = (Inr gi, w1)
       \<and> ClientForIssuer env gi w1 = (Inr cl, w2)
       \<and> challengeSelectorForOrder a ord = Inr sel
       \<and> ListChallenges env (Namespace ord) sel w2 = (Inr ex, w3)
      \<longrightarrow> (\<exists>rest. Sync_trace a env ord (w, tr) =
                    tr @ [CallGetGenericIssuer (IssuerRef (Spec ord)) (Namespace ord),
                          CallClientForIssuer gi,
                          CallListChallenges (Namespace ord) sel]
                       @ create_calls ord
                           (map_range a (map (\<lambda>i. (i, planned ord ! i))
                                           [0..<first_existing ex (planned ord)]))
                       @ rest
                  \<and> filter is_create rest = []))"
proof (intro conjI impI allI)
  show "first_existing ex (planned ord) \<le> length (planned ord)"
    by (rule first_existing_le)
next
  assume "first_existing ex (planned ord) < length (planned ord)"
  then show "has_existing ex (planned ord ! first_existing ex (planned ord))"
    by (rule first_existing_stop)
next
  fix j assume "j < first_existing ex (planned ord)"
  then show "\<not> has_existing ex (planned ord ! j)"
    by (rule first_existing_before)
next
  show "specsToCreate ord ex = map (\<lambda>i. (i, planned ord ! i)) [0..<first_existing ex (planned ord)]"
    by (rule specsToCreate_eq)
next
  assume h: "(State (Status ord) = Pending a \<or> State (Status ord) = Processing a)
       \<and> State (Status ord) \<noteq> Unknown a \<and> State (Status ord) \<noteq> Ready a
       \<and> \<not> IsFinalState a (State (Status ord)) \<and> URL (Status ord) \<noteq> []
       \<and> GetGenericIssuer env (IssuerRef (Spec ord)) (Namespace ord) w = (Inr gi, w1)
       \<and> ClientForIssuer env gi w1 = (Inr cl, w2)
       \<and> challengeSelectorForOrder a ord = Inr sel
       \<and> ListChallenges env (Namespace ord) sel w2 = (Inr ex, w3)"
  let ?tr2 = "tr @ [CallGetGenericIssuer (IssuerRef (Spec ord)) (Namespace ord), CallClientForIssuer gi]"
  from h have body: "Sync_body a env ord (w, tr) = Sync_challenges a env cl ord (w2, ?tr2)"
    by (simp add: Sync_body_Pending [where ?w1.0 = w1 and gi = gi and cl = cl and ?w2.0 = w2])
  from h have sel: "challengeSelectorForOrder a ord = Inr sel"
    and lst: "ListChallenges env (Namespace ord) sel w2 = (Inr ex, w3)" by simp_all
  from Sync_challenges_trace [OF sel lst, of cl ?tr2]
  obtain rest where r: "snd (snd (snd (Sync_challenges a env cl ord (w2, ?tr2)))) =
           ?tr2 @ [CallListChallenges (Namespace ord) sel]
              @ create_calls ord (map_range a (specsToCreate ord ex)) @ rest"
    and rr: "rest = [] \<or> rest = [CallGetOrder cl (URL (Status ord))]"
    by blast
  from Sync_trace_body [of a env ord "(w, tr)"]
  obtain upd where u: "Sync_trace a env ord (w, tr) = snd (snd (snd (Sync_body a env ord (w, tr)))) @ upd"
    and uu: "filter is_create upd = []"
    by blast
  from rr uu have "filter is_create (rest @ upd) = []" by auto
  moreover from u body r have "Sync_trace a env ord (w, tr) =
      tr @ [CallGetGenericIssuer (IssuerRef (Spec ord)) (Namespace ord),
            CallClientForIssuer gi, CallListChallenges (Namespace ord) sel]
         @ create_calls ord (map_range a (map (\<lambda>i. (i, planned ord ! i))
                                           [0..<first_existing ex (planned ord)]))
         @ (rest @ upd)"
    by (simp add: specsToCreate_eq)
  ultimately show "\<exists>rest. Sync_trace a env ord (w, tr) =
                    tr @ [CallGetGenericIssuer (IssuerRef (Spec ord)) (Namespace ord),
                          CallClientForIssuer gi,
                          CallListChallenges (Namespace ord) sel]
                       @ create_calls ord
                           (map_range a (map (\<lambda>i. (i, planned ord ! i))
                                           [0..<first_existing ex (planned ord)]))
                       @ rest
                  \<and> filter is_create rest = []"
    by blast
qed



text \<open>Three planned entries, for a.com, b.com and c.com, and one listed Challenge, for
  b.com: the scan stops at index 1, so only the Challenge for a.com is created, and none
  for c.com although it is missing.\<close>

theorem Sync_creates_until_first_existing_witness:
  "map spec_DNSName (planned ex_pending) = [''a.com'', ''b.com'', ''c.com'']
   \<and> map (\<lambda>ch. spec_DNSName (chal_Spec ch)) ex_existing = [''b.com'']
   \<and> first_existing ex_existing (planned ex_pending) = 1
   \<and> specsToCreate ex_pending ex_existing = [(0, ex_chalspec ''a.com'')]
   \<and> Sync_trace ex_api ex_env_listed ex_pending (0, []) =
        [CallGetGenericIssuer \<lparr>ref_Name = ''le'', ref_Kind = ''Issuer''\<rparr> ''ns'',
         CallClientForIssuer ex_issuer,
         CallListChallenges ''ns'' [(''acme.cert-manager.io/order-name'', ''ord'')],
         CallCreateChallenge ''ns'' (buildChallenge 0 ex_pending (ex_chalspec ''a.com''))]"
  using Sync_creates_until_first_existing [where ex = ex_existing and ord = ex_pending and a = ex_api and env = ex_env_listed
      and w = 0 and tr = "[]" and gi = ex_issuer and ?w1.0 = 1 and cl = "''cl''" and ?w2.0 = 2
      and sel = "[(''acme.cert-manager.io/order-name'', ''ord'')]" and ?w3.0 = 3]
  by (simp add: ex_defs ex_env_listed_def ex_pending_def ex_existing_def ex_chalspec_def planned_def
      first_existing_def has_existing_def buildChallenge_def challengeLabelsForOrder_def
      orderNameLabelKey_def challengeSelectorForOrder_def specsToCreate_def
      Sync_trace_def Sync_def Sync_body_def Sync_challenges_def syncOrderStatus_def
      perform_def NewAggregate_def List.map_filter_simps Let_def)

end
